theory Spec2Isabelle
  imports Complex_Main
begin

section \<open>Text primitives of the table parser\<close>

text \<open>
  The reply of the extraction service is a Python \<open>str\<close>. It is modelled as a
  \<open>string\<close> whose characters stand for the code points below 256, so the two
  whitespace code points of that range beyond ASCII (U+0085 and U+00A0) are present.
  Code points from 256 on (other Unicode spaces and decimal digits) are outside the
  model.
\<close>

text \<open>The characters \<open>str.strip()\<close> removes: those for which \<open>str.isspace\<close> holds.\<close>

definition is_space :: "char \<Rightarrow> bool" where
  "is_space c = (c \<in> set [CHR 0x09, CHR 0x0A, CHR 0x0B, CHR 0x0C, CHR 0x0D,
                           CHR 0x1C, CHR 0x1D, CHR 0x1E, CHR 0x1F, CHR 0x20,
                           CHR 0x85, CHR 0xA0])"

text \<open>Removal of the characters satisfying \<open>p\<close> from both ends of a string.\<close>

definition strip_where :: "(char \<Rightarrow> bool) \<Rightarrow> string \<Rightarrow> string" where
  "strip_where p s = rev (dropWhile p (rev (dropWhile p s)))"

text \<open>\<open>s.strip()\<close>\<close>

definition strip :: "string \<Rightarrow> string" where
  "strip s = strip_where is_space s"

text \<open>\<open>s.strip(chars)\<close>\<close>

definition strip_chars :: "string \<Rightarrow> string \<Rightarrow> string" where
  "strip_chars chars s = strip_where (\<lambda>c. c \<in> set chars) s"

text \<open>
  \<open>s.split(sep)\<close> for a separator of one character: the result always has at least one
  element, and \<open>n\<close> separators give \<open>n + 1\<close> pieces (empty ones included).
\<close>

fun cons_first :: "char \<Rightarrow> string list \<Rightarrow> string list" where
  "cons_first c [] = [[c]]"
| "cons_first c (w # ws) = (c # w) # ws"

fun split :: "char \<Rightarrow> string \<Rightarrow> string list" where
  "split sep [] = [[]]"
| "split sep (c # cs) =
     (if c = sep then [] # split sep cs else cons_first c (split sep cs))"

fun starts_with :: "string \<Rightarrow> string \<Rightarrow> bool" where
  "starts_with [] s = True"
| "starts_with (p # ps) [] = False"
| "starts_with (p # ps) (c # cs) = (p = c \<and> starts_with ps cs)"

text \<open>\<open>sub in s\<close>: the string \<open>sub\<close> occurs in \<open>s\<close> as a contiguous piece.\<close>

fun contains :: "string \<Rightarrow> string \<Rightarrow> bool" where
  "contains sub [] = (sub = [])"
| "contains sub (c # cs) = (starts_with sub (c # cs) \<or> contains sub cs)"

abbreviation newline :: char where
  "newline \<equiv> CHR 0x0A"

abbreviation pipe :: char where
  "pipe \<equiv> CHR ''|''"


section \<open>Floating-point values and \<open>float(str)\<close>\<close>

text \<open>
  The amount column is converted with \<open>astype(float)\<close>, which applies Python's
  \<open>float\<close> to every cell. A float is modelled by its exact value: a finite float is
  the rational that the decimal literal denotes (rounding to binary64, overflow to
  infinity and the sign of zero are not modelled), and the two infinities and NaN are
  values of their own.
\<close>

datatype pyfloat = Finite rat | PosInf | NegInf | NaN

definition is_digit :: "char \<Rightarrow> bool" where
  "is_digit c = (c \<in> set ''0123456789'')"

definition digit_val :: "char \<Rightarrow> nat" where
  "digit_val c = of_char c - 48"

definition nat_of_digits :: "string \<Rightarrow> nat" where
  "nat_of_digits ds = foldl (\<lambda>a d. 10 * a + digit_val d) 0 ds"

text \<open>
  The grammar of \<open>float\<close>:
  \<^verbatim>\<open>
  digitpart   ::= digit (["_"] digit)*
  number      ::= [digitpart] "." digitpart | digitpart ["."]
  exponent    ::= ("e" | "E") [sign] digitpart
  floatnumber ::= number [exponent]
  floatvalue  ::= [sign] (floatnumber | "inf" | "infinity" | "nan")
  \<close>
  with \<open>inf\<close>, \<open>infinity\<close> and \<open>nan\<close> in any letter case, and whitespace allowed
  around the whole.

  \<open>digits_more\<close> reads \<open>(["_"] digit)*\<close> and returns the digits read and the rest.
\<close>

fun digits_more :: "string \<Rightarrow> string \<times> string" where
  "digits_more [] = ([], [])"
| "digits_more [c] = (if is_digit c then ([c], []) else ([], [c]))"
| "digits_more (c # d # cs) =
     (if is_digit c then (case digits_more (d # cs) of (ds, r) \<Rightarrow> (c # ds, r))
      else if c = CHR ''_'' \<and> is_digit d then
        (case digits_more cs of (ds, r) \<Rightarrow> (d # ds, r))
      else ([], c # d # cs))"

text \<open>An optional \<open>digitpart\<close>: no digits are returned when the string starts with none.\<close>

fun digitpart :: "string \<Rightarrow> string \<times> string" where
  "digitpart [] = ([], [])"
| "digitpart (c # cs) =
     (if is_digit c then (case digits_more cs of (ds, r) \<Rightarrow> (c # ds, r))
      else ([], c # cs))"

text \<open>An optional sign: \<open>True\<close> for a minus.\<close>

fun take_sign :: "string \<Rightarrow> bool \<times> string" where
  "take_sign [] = (False, [])"
| "take_sign (c # cs) =
     (if c = CHR ''-'' then (True, cs)
      else if c = CHR ''+'' then (False, cs)
      else (False, c # cs))"

text \<open>\<open>number\<close>: the digits before the point, the digits after it, and the rest.\<close>

definition parse_number :: "string \<Rightarrow> (string \<times> string \<times> string) option" where
  "parse_number s =
     (case digitpart s of (ip, r1) \<Rightarrow>
        (case r1 of
           [] \<Rightarrow> (if ip = [] then None else Some (ip, [], r1))
         | c # r2 \<Rightarrow>
             (if c = CHR ''.'' then
                (case digitpart r2 of (fp, r3) \<Rightarrow>
                   (if ip = [] \<and> fp = [] then None else Some (ip, fp, r3)))
              else if ip = [] then None else Some (ip, [], r1))))"

text \<open>An optional \<open>exponent\<close> that must end the string: its value, 0 when absent.\<close>

definition parse_exponent :: "string \<Rightarrow> int option" where
  "parse_exponent s =
     (case s of
        [] \<Rightarrow> Some 0
      | c # r \<Rightarrow>
          (if c = CHR ''e'' \<or> c = CHR ''E'' then
             (case take_sign r of (neg, r') \<Rightarrow>
                (case digitpart r' of (ds, r'') \<Rightarrow>
                   (if ds = [] \<or> r'' \<noteq> [] then None
                    else Some (if neg then - int (nat_of_digits ds)
                               else int (nat_of_digits ds)))))
           else None))"

definition scale10 :: "rat \<Rightarrow> int \<Rightarrow> rat" where
  "scale10 x e = (if 0 \<le> e then x * 10 ^ nat e else x / 10 ^ nat (- e))"

definition lower :: "char \<Rightarrow> char" where
  "lower c =
     (case map_of (zip ''ABCDEFGHIJKLMNOPQRSTUVWXYZ'' ''abcdefghijklmnopqrstuvwxyz'') c of
        None \<Rightarrow> c
      | Some l \<Rightarrow> l)"

text \<open>
  The whitespace \<open>float\<close> accepts around the number: the ASCII space characters of C
  and the whitespace beyond ASCII; U+001C to U+001F are not among them.
\<close>

definition is_float_space :: "char \<Rightarrow> bool" where
  "is_float_space c = (c \<in> set [CHR 0x09, CHR 0x0A, CHR 0x0B, CHR 0x0C, CHR 0x0D,
                                 CHR 0x20, CHR 0x85, CHR 0xA0])"

text \<open>\<open>float(s)\<close>: \<open>None\<close> stands for the \<open>ValueError\<close> it raises.\<close>

definition to_float :: "string \<Rightarrow> pyfloat option" where
  "to_float s =
     (case take_sign (strip_where is_float_space s) of (neg, body) \<Rightarrow>
        (if map lower body \<in> set [''inf'', ''infinity''] then
           Some (if neg then NegInf else PosInf)
         else if map lower body = ''nan'' then Some NaN
         else
           (case parse_number body of
              None \<Rightarrow> None
            | Some (ip, fp, r) \<Rightarrow>
                (case parse_exponent r of
                   None \<Rightarrow> None
                 | Some e \<Rightarrow>
                     Some (Finite
                       (scale10 (if neg then - of_nat (nat_of_digits (ip @ fp))
                                 else of_nat (nat_of_digits (ip @ fp)))
                                (e - int (length fp))))))))"

text \<open>\<open>s.replace(',', '')\<close>\<close>

definition remove_commas :: "string \<Rightarrow> string" where
  "remove_commas s = filter (\<lambda>c. c \<noteq> CHR '','') s"

text \<open>
  What line 49 does to one cell of the amount column:
  \<open>.str.replace(',', '').astype(float)\<close>.
\<close>

definition parse_amount :: "string \<Rightarrow> pyfloat option" where
  "parse_amount cell = to_float (remove_commas cell)"


text \<open>
  \<open>isna\<close> of pandas on a float: NaN is the missing value of a float column, the one
  \<open>Series.sum()\<close> skips.
\<close>

definition isna :: "pyfloat \<Rightarrow> bool" where
  "isna x = (x = NaN)"

text \<open>
  The strings \<open>float\<close> reads as NaN: \<open>nan\<close> in any letter case, with an optional sign
  before it and whitespace around.
\<close>

definition spells_nan :: "string \<Rightarrow> bool" where
  "spells_nan s = (map lower (snd (take_sign (strip_where is_float_space s))) = ''nan'')"


section \<open>The table parser\<close>

text \<open>
  A row of the frame: the columns \<open>Date\<close>, \<open>Concept\<close>, \<open>Amount (MXN)\<close> and
  \<open>Type\<close>.
\<close>

record TransactionRecord =
  Date :: string
  Concept :: string
  Amount :: pyfloat
  Type :: string

text \<open>
  \<open>ShapeError\<close> is the \<open>ValueError\<close> of \<open>pd.DataFrame\<close> for a row that has not four
  columns, \<open>AmountParseError\<close> the \<open>ValueError\<close> of \<open>astype(float)\<close>.
\<close>

datatype error = ShapeError | AmountParseError

text \<open>
  The list comprehension of lines 41 to 43:
  \<open>[cell.strip() for cell in line.split('|') if cell.strip()]\<close>.
\<close>

definition row_cells :: "string \<Rightarrow> string list" where
  "row_cells line = map strip (filter (\<lambda>cell. strip cell \<noteq> []) (split pipe line))"

text \<open>
  The loop of lines 35 to 45; the first argument is \<open>start_parsing\<close>, the result is
  \<open>table_data\<close>.
\<close>

fun scan_lines :: "bool \<Rightarrow> string list \<Rightarrow> string list list" where
  "scan_lines start_parsing [] = []"
| "scan_lines start_parsing (line # rest) =
     (if pipe \<in> set line then
        (if contains ''Date'' line then scan_lines True rest
         else if start_parsing \<and> strip_chars ''|- '' line \<noteq> [] then
           (if length (row_cells line) = 4
            then row_cells line # scan_lines start_parsing rest
            else scan_lines start_parsing rest)
         else scan_lines start_parsing rest)
      else scan_lines start_parsing rest)"

definition table_data :: "string \<Rightarrow> string list list" where
  "table_data response = scan_lines False (split newline response)"

text \<open>
  Lines 47 to 49: the frame is built from the rows and the amount column is converted.
  The conversion of any cell that fails makes the whole statement raise.
\<close>

fun build_frame :: "string list list \<Rightarrow> error + TransactionRecord list" where
  "build_frame [] = Inr []"
| "build_frame (row # rows) =
     (case row of
        [d, c, a, t] \<Rightarrow>
          (case parse_amount a of
             None \<Rightarrow> Inl AmountParseError
           | Some x \<Rightarrow>
               (case build_frame rows of
                  Inl e \<Rightarrow> Inl e
                | Inr df \<Rightarrow> Inr (\<lparr>Date = d, Concept = c, Amount = x, Type = t\<rparr> # df)))
      | _ \<Rightarrow> Inl ShapeError)"

definition extract_table_from_response :: "string \<Rightarrow> error + TransactionRecord list" where
  "extract_table_from_response response = build_frame (table_data response)"


text \<open>
  The header marker of the specification: a candidate line (one with the delimiter)
  that contains the token \<open>Date\<close>; \<open>header_seen\<close> says that a list of lines has one.
\<close>

definition is_header :: "string \<Rightarrow> bool" where
  "is_header line = (pipe \<in> set line \<and> contains ''Date'' line)"

definition header_seen :: "string list \<Rightarrow> bool" where
  "header_seen ls = list_ex is_header ls"


section \<open>Filter and summary\<close>

text \<open>A \<open>datetime.date\<close>: year, month and day.\<close>

type_synonym date = "nat \<times> nat \<times> nat"

text \<open>
  Lines 159 to 166: \<open>date_range\<close> is what the date widget returns, \<open>selected_types\<close>
  what the multiselect returns; the mask is \<open>df['Type'].isin(selected_types)\<close>.
\<close>

definition df_filtered ::
  "TransactionRecord list \<Rightarrow> string list \<Rightarrow> date \<times> date \<Rightarrow> TransactionRecord list" where
  "df_filtered df selected_types date_range = filter (\<lambda>r. Type r \<in> set selected_types) df"

text \<open>Addition and negation of floats, on exact values.\<close>

fun fadd :: "pyfloat \<Rightarrow> pyfloat \<Rightarrow> pyfloat" where
  "fadd (Finite a) (Finite b) = Finite (a + b)"
| "fadd NaN y = NaN"
| "fadd x NaN = NaN"
| "fadd PosInf NegInf = NaN"
| "fadd NegInf PosInf = NaN"
| "fadd PosInf y = PosInf"
| "fadd x PosInf = PosInf"
| "fadd NegInf y = NegInf"
| "fadd x NegInf = NegInf"

fun fneg :: "pyfloat \<Rightarrow> pyfloat" where
  "fneg (Finite a) = Finite (- a)"
| "fneg PosInf = NegInf"
| "fneg NegInf = PosInf"
| "fneg NaN = NaN"

definition fsub :: "pyfloat \<Rightarrow> pyfloat \<Rightarrow> pyfloat" where
  "fsub x y = fadd x (fneg y)"

text \<open>\<open>Series.sum()\<close> of a float column: NaN is skipped, the empty sum is 0.\<close>

definition series_sum :: "pyfloat list \<Rightarrow> pyfloat" where
  "series_sum xs = foldl fadd (Finite 0) (filter (\<lambda>x. x \<noteq> NaN) xs)"

text \<open>Lines 197 to 200.\<close>

definition total_income :: "TransactionRecord list \<Rightarrow> pyfloat" where
  "total_income df = series_sum (map Amount (filter (\<lambda>r. Type r = ''Income'') df))"

definition total_expenses :: "TransactionRecord list \<Rightarrow> pyfloat" where
  "total_expenses df = series_sum (map Amount (filter (\<lambda>r. Type r = ''Expense'') df))"

definition balance :: "TransactionRecord list \<Rightarrow> pyfloat" where
  "balance df = fsub (total_income df) (total_expenses df)"


section \<open>The Excel export\<close>

text \<open>
  The file system is a map from paths to contents. What the library calls of
  \<open>create_excel_download_link\<close> do is given by an environment: the name
  \<open>tempfile\<close> chooses, the bytes \<open>df.to_excel\<close> writes (\<open>None\<close> when it raises),
  whether reading the file back raises, and \<open>base64.b64encode\<close>.
\<close>

type_synonym filesystem = "string \<rightharpoonup> string"

record export_env =
  tmp_name :: string
  to_excel :: "TransactionRecord list \<Rightarrow> string option"
  read_raises :: bool
  b64encode :: "string \<Rightarrow> string"

datatype io_error = WriteError | ReadError

text \<open>
  Lines 115 to 121. \<open>NamedTemporaryFile(delete=False)\<close> creates the file and leaves it
  on disk when the \<open>with\<close> block is left, by \<open>return\<close> or by an exception; the only
  deletion is the \<open>os.unlink\<close> of line 119.
\<close>

definition create_excel_download_link ::
  "export_env \<Rightarrow> TransactionRecord list \<Rightarrow> filesystem \<Rightarrow> (io_error + string) \<times> filesystem" where
  "create_excel_download_link env df fs =
     (let fs1 = fs(tmp_name env \<mapsto> []) in
      case to_excel env df of
        None \<Rightarrow> (Inl WriteError, fs1)
      | Some excel_data \<Rightarrow>
          (let fs2 = fs1(tmp_name env \<mapsto> excel_data) in
           if read_raises env then (Inl ReadError, fs2)
           else
             (Inr (''data:application/vnd.openxmlformats-officedocument.spreadsheetml.sheet;base64,''
                   @ b64encode env excel_data),
              fs2(tmp_name env := None))))"


section \<open>Properties of the text primitives and of the parser loop\<close>

lemma starts_with_iff: "starts_with sub s \<longleftrightarrow> (\<exists>q. s = sub @ q)"
  by (induction sub s rule: starts_with.induct) auto

lemma contains_iff: "contains sub s \<longleftrightarrow> (\<exists>p q. s = p @ sub @ q)"
proof (induction s)
  case Nil
  then show ?case by auto
next
  case (Cons c cs)
  show ?case
  proof
    assume "contains sub (c # cs)"
    then consider "starts_with sub (c # cs)" | "contains sub cs" by auto
    then show "\<exists>p q. c # cs = p @ sub @ q"
    proof cases
      case 1
      then obtain q where "c # cs = sub @ q" using starts_with_iff by blast
      then have "c # cs = [] @ sub @ q" by simp
      then show ?thesis by blast
    next
      case 2
      then obtain p q where "cs = p @ sub @ q" using Cons.IH by blast
      then have "c # cs = (c # p) @ sub @ q" by simp
      then show ?thesis by blast
    qed
  next
    assume "\<exists>p q. c # cs = p @ sub @ q"
    then obtain p q where pq: "c # cs = p @ sub @ q" by blast
    show "contains sub (c # cs)"
    proof (cases p)
      case Nil
      with pq have "starts_with sub (c # cs)" using starts_with_iff by auto
      then show ?thesis by simp
    next
      case (Cons a p')
      with pq have "cs = p' @ sub @ q" by simp
      then have "contains sub cs" using Cons.IH by blast
      then show ?thesis by simp
    qed
  qed
qed

lemma strip_where_idem: "strip_where p (strip_where p s) = strip_where p s"
proof -
  define t where "t = dropWhile p s"
  define u where "u = rev (dropWhile p (rev t))"
  have split_t: "t = u @ rev (takeWhile p (rev t))"
    unfolding u_def by (metis rev_append rev_rev_ident takeWhile_dropWhile_id)
  have head: "u = [] \<or> \<not> p (hd u)"
  proof (cases "u = []")
    case True
    then show ?thesis by simp
  next
    case False
    then have "hd u = hd t" using split_t by (metis hd_append2)
    moreover have "t \<noteq> []" using False split_t by auto
    then have "\<not> p (hd t)" unfolding t_def by (rule hd_dropWhile)
    ultimately show ?thesis by simp
  qed
  then have "dropWhile p u = u" by (simp add: dropWhile_eq_self_iff)
  moreover have "rev (dropWhile p (rev u)) = u" by (simp add: u_def)
  ultimately show ?thesis by (simp add: strip_where_def t_def u_def)
qed

lemma strip_idem: "strip (strip s) = strip s"
  by (simp add: strip_def strip_where_idem)

lemma row_cells_cell:
  "cell \<in> set (row_cells line) \<Longrightarrow> cell \<noteq> [] \<and> strip cell = cell"
  by (auto simp: row_cells_def strip_idem)

lemma scan_lines_rows:
  "row \<in> set (scan_lines st ls) \<Longrightarrow>
     \<exists>l \<in> set ls. pipe \<in> set l \<and> \<not> contains ''Date'' l \<and> strip_chars ''|- '' l \<noteq> []
        \<and> row = row_cells l \<and> length row = 4"
proof (induction ls arbitrary: st)
  case Nil
  then show ?case by simp
next
  case (Cons l ls)
  then show ?case by (auto split: if_splits)
qed



lemma build_frame_append:
  "build_frame (xs @ ys) =
     (case build_frame xs of
        Inl e \<Rightarrow> Inl e
      | Inr d1 \<Rightarrow> (case build_frame ys of Inl e \<Rightarrow> Inl e | Inr d2 \<Rightarrow> Inr (d1 @ d2)))"
proof (induction xs)
  case Nil
  then show ?case by (simp split: sum.splits)
next
  case (Cons row xs)
  then show ?case by (simp split: option.splits sum.splits list.splits)
qed

lemma build_frame_append_Inr:
  "build_frame (xs @ ys) = Inr df \<Longrightarrow>
     \<exists>d1 d2. build_frame xs = Inr d1 \<and> build_frame ys = Inr d2 \<and> df = d1 @ d2"
  by (auto simp: build_frame_append split: sum.splits)

lemma build_frame_row:
  "build_frame ([d, c, a, t] # rows) = Inr df \<Longrightarrow>
     \<exists>x df'. parse_amount a = Some x \<and> build_frame rows = Inr df'
        \<and> df = \<lparr>Date = d, Concept = c, Amount = x, Type = t\<rparr> # df'"
  by (auto split: option.splits sum.splits)

lemma build_frame_records:
  "build_frame rows = Inr df \<Longrightarrow> r \<in> set df \<Longrightarrow>
     \<exists>a. [Date r, Concept r, a, Type r] \<in> set rows \<and> parse_amount a = Some (Amount r)"
proof (induction rows arbitrary: df)
  case Nil
  then show ?case by simp
next
  case (Cons row rows)
  then show ?case
    by (fastforce split: option.splits sum.splits list.splits)
qed

lemma scan_lines_append:
  "scan_lines st (xs @ ys) = scan_lines st xs @ scan_lines (st \<or> header_seen xs) ys"
  by (induction xs arbitrary: st) (auto simp: header_seen_def is_header_def)

lemma scan_lines_no_header:
  "\<not> header_seen ls \<Longrightarrow> scan_lines False ls = []"
  by (induction ls) (auto simp: header_seen_def is_header_def)


lemma to_float_isna:
  "to_float s = Some x \<Longrightarrow> isna x = spells_nan s"
  by (auto simp: to_float_def isna_def spells_nan_def
      split: prod.splits if_splits option.splits)


section \<open>The claims about the table parser\<close>

lemmas text_defs = strip_def strip_chars_def strip_where_def is_space_def row_cells_def
  is_header_def header_seen_def
lemmas parser_defs = table_data_def extract_table_from_response_def
lemmas float_defs = parse_amount_def remove_commas_def to_float_def is_float_space_def lower_def
  parse_number_def parse_exponent_def is_digit_def scale10_def nat_of_digits_def digit_val_def


text \<open>
  Claim C5. When the lines of a reply are \<open>before @ header # after\<close>, where \<open>header\<close>
  is the first candidate line containing \<open>Date\<close>, the lines of \<open>before\<close> give no
  row whatever they contain, and the rows and the result of the parser are those of the
  lines after the header alone.
\<close>
theorem lines_before_header_ignored:
  assumes "split newline response = before @ header # after"
    and "\<not> header_seen before"
    and "is_header header"
  shows "scan_lines False before = []
    \<and> table_data response = scan_lines True after
    \<and> extract_table_from_response response = build_frame (scan_lines True after)"
proof -
  have none: "scan_lines False before = []"
    using assms(2) by (rule scan_lines_no_header)
  have "scan_lines False (before @ header # after) = scan_lines False (header # after)"
    using assms(2) by (simp add: scan_lines_append none)
  also have "\<dots> = scan_lines True after"
    using assms(3) by (simp add: is_header_def)
  finally have "table_data response = scan_lines True after"
    by (simp add: table_data_def assms(1))
  then show ?thesis
    using none by (simp add: extract_table_from_response_def)
qed

text \<open>
  A reply whose first line splits into four cells and stands before the header: only the
  line after the header becomes a record.
\<close>
theorem lines_before_header_ignored_witness:
  "split newline (''| a | b | 7 | d |'' @ [newline] @ ''| Date | x |'' @ [newline] @ ''| 1 | 2 | 3 | 4 |'')
     = [''| a | b | 7 | d |''] @ ''| Date | x |'' # [''| 1 | 2 | 3 | 4 |'']
   \<and> \<not> header_seen [''| a | b | 7 | d |'']
   \<and> is_header ''| Date | x |''
   \<and> length (row_cells ''| a | b | 7 | d |'') = 4
   \<and> extract_table_from_response
        (''| a | b | 7 | d |'' @ [newline] @ ''| Date | x |'' @ [newline] @ ''| 1 | 2 | 3 | 4 |'')
      = Inr [\<lparr>Date = ''1'', Concept = ''2'', Amount = Finite 3, Type = ''4''\<rparr>]"
proof -
  have h1: "split newline (''| a | b | 7 | d |'' @ [newline] @ ''| Date | x |'' @ [newline] @ ''| 1 | 2 | 3 | 4 |'')
     = [''| a | b | 7 | d |''] @ ''| Date | x |'' # [''| 1 | 2 | 3 | 4 |'']"
    by simp
  have h2: "\<not> header_seen [''| a | b | 7 | d |'']"
    by (simp add: text_defs)
  have h3: "is_header ''| Date | x |''"
    by (simp add: text_defs)
  have h4: "length (row_cells ''| a | b | 7 | d |'') = 4"
    by (simp add: text_defs)
  have h5: "build_frame (scan_lines True [''| 1 | 2 | 3 | 4 |''])
      = Inr [\<lparr>Date = ''1'', Concept = ''2'', Amount = Finite 3, Type = ''4''\<rparr>]"
    by (simp add: text_defs float_defs)
  show ?thesis
    using lines_before_header_ignored [OF h1 h2 h3] h1 h2 h3 h4 h5 by presburger
qed

text \<open>
  Claim C10. A candidate line containing \<open>Date\<close> gives no row, wherever it stands:
  the rows of the reply are those of the lines before it followed by those of the lines
  after it, and every row and every record of the result comes from another line, a
  candidate line that does not contain \<open>Date\<close>.
\<close>
theorem date_lines_discarded:
  assumes "split newline response = before @ line # after"
    and "pipe \<in> set line"
    and "contains ''Date'' line"
  shows "table_data response = scan_lines False before @ scan_lines True after
    \<and> (\<forall>row \<in> set (table_data response).
          \<exists>l \<in> set (before @ after).
            pipe \<in> set l \<and> \<not> contains ''Date'' l \<and> row = row_cells l)
    \<and> (\<forall>df. extract_table_from_response response = Inr df \<longrightarrow>
          (\<forall>r \<in> set df.
             \<exists>l \<in> set (before @ after).
               pipe \<in> set l \<and> \<not> contains ''Date'' l
               \<and> (\<exists>a. row_cells l = [Date r, Concept r, a, Type r]
                        \<and> parse_amount a = Some (Amount r))))"
proof -
  have rows: "table_data response = scan_lines False before @ scan_lines True after"
    using assms by (simp add: table_data_def scan_lines_append)
  have origin: "\<exists>l \<in> set (before @ after).
      pipe \<in> set l \<and> \<not> contains ''Date'' l \<and> row = row_cells l"
    if "row \<in> set (table_data response)" for row
  proof -
    from that rows
    consider "row \<in> set (scan_lines False before)" | "row \<in> set (scan_lines True after)"
      by auto
    then show ?thesis
    proof cases
      case 1
      from scan_lines_rows [OF 1] show ?thesis by auto
    next
      case 2
      from scan_lines_rows [OF 2] show ?thesis by auto
    qed
  qed
  have recs: "\<exists>l \<in> set (before @ after).
      pipe \<in> set l \<and> \<not> contains ''Date'' l
      \<and> (\<exists>a. row_cells l = [Date r, Concept r, a, Type r] \<and> parse_amount a = Some (Amount r))"
    if "extract_table_from_response response = Inr df" and "r \<in> set df" for df r
  proof -
    from that obtain a where a: "[Date r, Concept r, a, Type r] \<in> set (table_data response)"
      and pa: "parse_amount a = Some (Amount r)"
      using build_frame_records unfolding extract_table_from_response_def by blast
    from origin [OF a] obtain l where "l \<in> set (before @ after)" "pipe \<in> set l"
      "\<not> contains ''Date'' l" "[Date r, Concept r, a, Type r] = row_cells l"
      by blast
    with pa show ?thesis by metis
  qed
  from rows origin recs show ?thesis by blast
qed

text \<open>
  A data row after the header whose concept is \<open>Update Date\<close>: it has four cells and
  gives no row.
\<close>
theorem date_lines_discarded_witness:
  "split newline (''| Date | Concept | Amount (MXN) | Type |'' @ [newline]
        @ ''| 2024-11-01 | Update Date | 5 | Expense |'')
     = [''| Date | Concept | Amount (MXN) | Type |'']
       @ ''| 2024-11-01 | Update Date | 5 | Expense |'' # []
   \<and> pipe \<in> set ''| 2024-11-01 | Update Date | 5 | Expense |''
   \<and> contains ''Date'' ''| 2024-11-01 | Update Date | 5 | Expense |''
   \<and> row_cells ''| 2024-11-01 | Update Date | 5 | Expense |''
      = [''2024-11-01'', ''Update Date'', ''5'', ''Expense'']
   \<and> table_data (''| Date | Concept | Amount (MXN) | Type |'' @ [newline]
        @ ''| 2024-11-01 | Update Date | 5 | Expense |'') = []"
proof -
  have h1: "split newline (''| Date | Concept | Amount (MXN) | Type |'' @ [newline]
        @ ''| 2024-11-01 | Update Date | 5 | Expense |'')
     = [''| Date | Concept | Amount (MXN) | Type |'']
       @ ''| 2024-11-01 | Update Date | 5 | Expense |'' # []"
    by simp
  have h2: "pipe \<in> set ''| 2024-11-01 | Update Date | 5 | Expense |''"
    by simp
  have h3: "contains ''Date'' ''| 2024-11-01 | Update Date | 5 | Expense |''"
    by simp
  have h4: "row_cells ''| 2024-11-01 | Update Date | 5 | Expense |''
      = [''2024-11-01'', ''Update Date'', ''5'', ''Expense'']"
    by (simp add: text_defs)
  have h5: "scan_lines False [''| Date | Concept | Amount (MXN) | Type |'']
      @ scan_lines True [] = []"
    by simp
  show ?thesis
    using date_lines_discarded [OF h1 h2 h3] h1 h2 h3 h4 h5 by presburger
qed

text \<open>
  Claim C4. A line after the header marker whose cells are not exactly four, or that is
  made of delimiter, dash and space characters only (a separator line), gives no row
  and does not make the parser raise: the result is that of the reply without the line.
  When the line is the only one after the header the result is the empty record set.
\<close>
theorem short_rows_and_separators_dropped:
  assumes "split newline response = before @ line # after"
    and "header_seen before"
    and "length (row_cells line) \<noteq> 4 \<or> strip_chars ''|- '' line = []"
  shows "table_data response = scan_lines False before @ scan_lines True after
    \<and> extract_table_from_response response = build_frame (scan_lines False (before @ after))
    \<and> (\<forall>pre h. before = pre @ [h] \<and> \<not> header_seen pre \<and> after = [] \<longrightarrow>
          extract_table_from_response response = Inr [])"
proof -
  have step: "scan_lines True (line # after) = scan_lines True after"
    using assms(3) by auto
  have rows: "table_data response = scan_lines False before @ scan_lines True after"
    using assms(1,2) step by (simp add: table_data_def scan_lines_append)
  have without: "scan_lines False (before @ after) = scan_lines False before @ scan_lines True after"
    using assms(2) by (simp add: scan_lines_append)
  have only: "extract_table_from_response response = Inr []"
    if "before = pre @ [h]" "\<not> header_seen pre" "after = []" for pre h
  proof -
    have "is_header h"
      using assms(2) that by (simp add: header_seen_def)
    then have "scan_lines False [h] = []"
      by (simp add: is_header_def)
    then have "scan_lines False before = []"
      using that by (simp add: scan_lines_append scan_lines_no_header)
    then show ?thesis
      using rows that by (simp add: extract_table_from_response_def)
  qed
  from rows without only show ?thesis
    by (simp add: extract_table_from_response_def)
qed

text \<open>
  The separator line \<open>|---|---|---|---|\<close> and a row of three cells, each alone after the
  header.
\<close>
theorem short_rows_and_separators_dropped_witness:
  "split newline (''| Date | Concept | Amount (MXN) | Type |'' @ [newline] @ ''|---|---|---|---|'')
     = [''| Date | Concept | Amount (MXN) | Type |''] @ ''|---|---|---|---|'' # []
   \<and> header_seen [''| Date | Concept | Amount (MXN) | Type |'']
   \<and> strip_chars ''|- '' ''|---|---|---|---|'' = []
   \<and> extract_table_from_response
        (''| Date | Concept | Amount (MXN) | Type |'' @ [newline] @ ''|---|---|---|---|'') = Inr []
   \<and> split newline (''| Date | Concept | Amount (MXN) | Type |'' @ [newline] @ ''| a | b | 3 |'')
     = [''| Date | Concept | Amount (MXN) | Type |''] @ ''| a | b | 3 |'' # []
   \<and> length (row_cells ''| a | b | 3 |'') \<noteq> 4
   \<and> extract_table_from_response
        (''| Date | Concept | Amount (MXN) | Type |'' @ [newline] @ ''| a | b | 3 |'') = Inr []"
proof -
  have h1: "split newline (''| Date | Concept | Amount (MXN) | Type |'' @ [newline] @ ''|---|---|---|---|'')
     = [''| Date | Concept | Amount (MXN) | Type |''] @ ''|---|---|---|---|'' # []"
    by simp
  have h2: "header_seen [''| Date | Concept | Amount (MXN) | Type |'']"
    by (simp add: text_defs)
  have h3: "strip_chars ''|- '' ''|---|---|---|---|'' = []"
    by (simp add: text_defs)
  have h3': "length (row_cells ''|---|---|---|---|'') \<noteq> 4 \<or> strip_chars ''|- '' ''|---|---|---|---|'' = []"
    using h3 by simp
  have g1: "split newline (''| Date | Concept | Amount (MXN) | Type |'' @ [newline] @ ''| a | b | 3 |'')
     = [''| Date | Concept | Amount (MXN) | Type |''] @ ''| a | b | 3 |'' # []"
    by simp
  have g3: "length (row_cells ''| a | b | 3 |'') \<noteq> 4"
    by (simp add: text_defs)
  have g3': "length (row_cells ''| a | b | 3 |'') \<noteq> 4 \<or> strip_chars ''|- '' ''| a | b | 3 |'' = []"
    using g3 by simp
  have pre: "[''| Date | Concept | Amount (MXN) | Type |'']
      = [] @ [''| Date | Concept | Amount (MXN) | Type |''] \<and> \<not> header_seen [] \<and> ([]::string list) = []"
    by (simp add: header_seen_def)
  from short_rows_and_separators_dropped [OF h1 h2 h3'] pre
  have r1: "extract_table_from_response
        (''| Date | Concept | Amount (MXN) | Type |'' @ [newline] @ ''|---|---|---|---|'') = Inr []"
    by blast
  from short_rows_and_separators_dropped [OF g1 h2 g3'] pre
  have r2: "extract_table_from_response
        (''| Date | Concept | Amount (MXN) | Type |'' @ [newline] @ ''| a | b | 3 |'') = Inr []"
    by blast
  show ?thesis
    using h1 h2 h3 g1 g3 r1 r2 by presburger
qed

text \<open>
  Claim C9, as stated, fails. The row below is kept, and its amount cell \<open>nan\<close> is
  accepted by \<open>float\<close>: the record has NaN as its amount, the missing value of the
  column, which the sum of the expenses then skips.
\<close>
theorem nan_amount_counterexample:
  "extract_table_from_response (''| Date | Concept | Amount (MXN) | Type |'' @ [newline]
       @ ''| 2024-11-01 | RENT | nan | Expense |'')
     = Inr [\<lparr>Date = ''2024-11-01'', Concept = ''RENT'', Amount = NaN, Type = ''Expense''\<rparr>]
   \<and> isna (Amount \<lparr>Date = ''2024-11-01'', Concept = ''RENT'', Amount = NaN, Type = ''Expense''\<rparr>)
   \<and> total_expenses
        [\<lparr>Date = ''2024-11-01'', Concept = ''RENT'', Amount = NaN, Type = ''Expense''\<rparr>]
      = Finite 0"
  by (simp add: text_defs parser_defs float_defs isna_def total_expenses_def series_sum_def)

text \<open>
  Claim C9, amended. Every row the loop keeps has exactly four cells, each non-empty and
  free of surrounding whitespace. Every record of a result has four fields: its date,
  concept and type are such cells, hence non-empty after trimming, and its amount is the
  float read from such a cell after the removal of the commas. The amount is the missing
  value NaN exactly when that cell, commas removed, reads \<open>nan\<close>; otherwise it is a
  number or an infinity.
\<close>
theorem records_have_four_fields:
  "(\<forall>row \<in> set (table_data response).
      length row = 4 \<and> (\<forall>cell \<in> set row. cell \<noteq> [] \<and> strip cell = cell))
   \<and> (\<forall>df. extract_table_from_response response = Inr df \<longrightarrow>
         (\<forall>r \<in> set df.
            Date r \<noteq> [] \<and> strip (Date r) = Date r
            \<and> Concept r \<noteq> [] \<and> strip (Concept r) = Concept r
            \<and> Type r \<noteq> [] \<and> strip (Type r) = Type r
            \<and> (\<exists>a. a \<noteq> [] \<and> strip a = a \<and> parse_amount a = Some (Amount r)
                     \<and> isna (Amount r) = spells_nan (remove_commas a))))"
proof -
  have cells: "length row = 4 \<and> (\<forall>cell \<in> set row. cell \<noteq> [] \<and> strip cell = cell)"
    if "row \<in> set (table_data response)" for row
  proof -
    from that obtain l where "row = row_cells l" and "length row = 4"
      unfolding table_data_def using scan_lines_rows by blast
    then show ?thesis using row_cells_cell by blast
  qed
  have fields: "Date r \<noteq> [] \<and> strip (Date r) = Date r
      \<and> Concept r \<noteq> [] \<and> strip (Concept r) = Concept r
      \<and> Type r \<noteq> [] \<and> strip (Type r) = Type r
      \<and> (\<exists>a. a \<noteq> [] \<and> strip a = a \<and> parse_amount a = Some (Amount r)
               \<and> isna (Amount r) = spells_nan (remove_commas a))"
    if "extract_table_from_response response = Inr df" and "r \<in> set df" for df r
  proof -
    from that obtain a where a: "[Date r, Concept r, a, Type r] \<in> set (table_data response)"
      and pa: "parse_amount a = Some (Amount r)"
      using build_frame_records unfolding extract_table_from_response_def by blast
    from pa have missing: "isna (Amount r) = spells_nan (remove_commas a)"
      unfolding parse_amount_def by (rule to_float_isna)
    from cells [OF a]
    have "\<forall>cell \<in> set [Date r, Concept r, a, Type r]. cell \<noteq> [] \<and> strip cell = cell"
      by blast
    then have "Date r \<noteq> [] \<and> strip (Date r) = Date r
      \<and> Concept r \<noteq> [] \<and> strip (Concept r) = Concept r
      \<and> Type r \<noteq> [] \<and> strip (Type r) = Type r
      \<and> a \<noteq> [] \<and> strip a = a"
      by simp
    with pa missing show ?thesis by blast
  qed
  from cells fields show ?thesis by blast
qed

text \<open>
  The reply of the specification, with blanks of different widths around the cells: the
  amount cell does not read \<open>nan\<close> and the amount is not missing.
\<close>
theorem records_have_four_fields_witness:
  "table_data (''| Date | Concept | Amount (MXN) | Type |'' @ [newline]
       @ ''|  2024-11-01 | RENTA DEPTO CHAPULTEPEC | 12,345.00 |Expense  |'')
     = [[''2024-11-01'', ''RENTA DEPTO CHAPULTEPEC'', ''12,345.00'', ''Expense'']]
   \<and> extract_table_from_response (''| Date | Concept | Amount (MXN) | Type |'' @ [newline]
       @ ''|  2024-11-01 | RENTA DEPTO CHAPULTEPEC | 12,345.00 |Expense  |'')
     = Inr [\<lparr>Date = ''2024-11-01'', Concept = ''RENTA DEPTO CHAPULTEPEC'',
             Amount = Finite 12345, Type = ''Expense''\<rparr>]
   \<and> strip ''2024-11-01'' = ''2024-11-01''
   \<and> strip ''RENTA DEPTO CHAPULTEPEC'' = ''RENTA DEPTO CHAPULTEPEC''
   \<and> strip ''12,345.00'' = ''12,345.00''
   \<and> strip ''Expense'' = ''Expense''
   \<and> parse_amount ''12,345.00'' = Some (Finite 12345)
   \<and> \<not> spells_nan (remove_commas ''12,345.00'')
   \<and> \<not> isna (Finite 12345)"
proof -
  have h1: "table_data (''| Date | Concept | Amount (MXN) | Type |'' @ [newline]
       @ ''|  2024-11-01 | RENTA DEPTO CHAPULTEPEC | 12,345.00 |Expense  |'')
     = [[''2024-11-01'', ''RENTA DEPTO CHAPULTEPEC'', ''12,345.00'', ''Expense'']]"
    by (simp add: text_defs parser_defs)
  have h2: "extract_table_from_response (''| Date | Concept | Amount (MXN) | Type |'' @ [newline]
       @ ''|  2024-11-01 | RENTA DEPTO CHAPULTEPEC | 12,345.00 |Expense  |'')
     = Inr [\<lparr>Date = ''2024-11-01'', Concept = ''RENTA DEPTO CHAPULTEPEC'',
             Amount = Finite 12345, Type = ''Expense''\<rparr>]"
    by (simp add: text_defs parser_defs float_defs)
  have h3: "parse_amount ''12,345.00'' = Some (Finite 12345)"
    by (simp add: float_defs strip_where_def)
  have h4: "\<not> spells_nan (remove_commas ''12,345.00'')"
    by (simp add: spells_nan_def remove_commas_def strip_where_def is_float_space_def lower_def)
  have h5: "\<not> isna (Finite 12345)"
    by (simp add: isna_def)
  from records_have_four_fields
      [of "''| Date | Concept | Amount (MXN) | Type |'' @ [newline]
       @ ''|  2024-11-01 | RENTA DEPTO CHAPULTEPEC | 12,345.00 |Expense  |''"]
  have "\<forall>cell \<in> set [''2024-11-01'', ''RENTA DEPTO CHAPULTEPEC'', ''12,345.00'', ''Expense''].
      cell \<noteq> [] \<and> strip cell = cell"
    unfolding h1 by simp
  then have "strip ''2024-11-01'' = ''2024-11-01''
      \<and> strip ''RENTA DEPTO CHAPULTEPEC'' = ''RENTA DEPTO CHAPULTEPEC''
      \<and> strip ''12,345.00'' = ''12,345.00''
      \<and> strip ''Expense'' = ''Expense''"
    by simp
  with h1 h2 h3 h4 h5 show ?thesis by presburger
qed





text \<open>
  Claim C1, as stated, fails. Each of the three lines below stands after the header and
  splits into exactly four non-empty cells. The first, made of delimiters, dashes and
  spaces only, gives no record. The second has an amount that is not a number: the
  parser raises and gives no record at all. The third contains \<open>Date\<close> in its concept
  and gives no record.
\<close>
theorem four_cell_row_counterexample:
  "row_cells ''| - | - | - | - |'' = [''-'', ''-'', ''-'', ''-'']
   \<and> extract_table_from_response
        (''| Date | Concept | Amount (MXN) | Type |'' @ [newline] @ ''| - | - | - | - |'') = Inr []
   \<and> row_cells ''| 2024-11-02 | FEE | n/a | Expense |'' = [''2024-11-02'', ''FEE'', ''n/a'', ''Expense'']
   \<and> extract_table_from_response
        (''| Date | Concept | Amount (MXN) | Type |'' @ [newline]
         @ ''| 2024-11-02 | FEE | n/a | Expense |'') = Inl AmountParseError
   \<and> row_cells ''| 2024-11-01 | Update Date | 5 | Expense |''
        = [''2024-11-01'', ''Update Date'', ''5'', ''Expense'']
   \<and> extract_table_from_response
        (''| Date | Concept | Amount (MXN) | Type |'' @ [newline]
         @ ''| 2024-11-01 | Update Date | 5 | Expense |'') = Inr []"
  by (simp add: text_defs parser_defs float_defs)

text \<open>
  Claim C1, amended. Let a line after the header marker contain the delimiter, not
  contain \<open>Date\<close>, not be made of delimiter, dash and space characters only, and split
  into exactly four trimmed non-empty cells. When the parser returns a record set, that
  set is the records of the lines before, then exactly one record for this line, then
  the records of the lines after; the record has the first, second and fourth cells as
  date, concept and type, and the float read from the third cell, commas removed, as
  amount.
\<close>
theorem four_cell_row_yields_one_record:
  assumes "split newline response = before @ line # after"
    and "header_seen before"
    and "pipe \<in> set line"
    and "\<not> contains ''Date'' line"
    and "strip_chars ''|- '' line \<noteq> []"
    and "row_cells line = [d, c, a, t]"
    and "extract_table_from_response response = Inr df"
  shows "\<exists>x df1 df2.
      parse_amount a = Some x
      \<and> build_frame (scan_lines False before) = Inr df1
      \<and> build_frame (scan_lines True after) = Inr df2
      \<and> df = df1 @ \<lparr>Date = d, Concept = c, Amount = x, Type = t\<rparr> # df2"
proof -
  have step: "scan_lines True (line # after) = [d, c, a, t] # scan_lines True after"
    using assms(3,4,5,6) by simp
  have "table_data response = scan_lines False before @ [d, c, a, t] # scan_lines True after"
    using assms(1,2) step by (simp add: table_data_def scan_lines_append)
  with assms(7)
  have "build_frame (scan_lines False before @ [d, c, a, t] # scan_lines True after) = Inr df"
    by (simp add: extract_table_from_response_def)
  from build_frame_append_Inr [OF this] obtain df1 rest
    where d1: "build_frame (scan_lines False before) = Inr df1"
      and r: "build_frame ([d, c, a, t] # scan_lines True after) = Inr rest"
      and df: "df = df1 @ rest"
    by blast
  from build_frame_row [OF r] obtain x df2
    where "parse_amount a = Some x" "build_frame (scan_lines True after) = Inr df2"
      "rest = \<lparr>Date = d, Concept = c, Amount = x, Type = t\<rparr> # df2"
    by blast
  with d1 df show ?thesis by blast
qed

text \<open>The example reply of the specification.\<close>
theorem four_cell_row_yields_one_record_witness:
  "split newline (''| Date | Concept | Amount (MXN) | Type |'' @ [newline]
       @ ''| 2024-11-01 | RENTA DEPTO CHAPULTEPEC | 12,345.00 | Expense |'')
     = [''| Date | Concept | Amount (MXN) | Type |'']
       @ ''| 2024-11-01 | RENTA DEPTO CHAPULTEPEC | 12,345.00 | Expense |'' # []
   \<and> header_seen [''| Date | Concept | Amount (MXN) | Type |'']
   \<and> pipe \<in> set ''| 2024-11-01 | RENTA DEPTO CHAPULTEPEC | 12,345.00 | Expense |''
   \<and> \<not> contains ''Date'' ''| 2024-11-01 | RENTA DEPTO CHAPULTEPEC | 12,345.00 | Expense |''
   \<and> strip_chars ''|- '' ''| 2024-11-01 | RENTA DEPTO CHAPULTEPEC | 12,345.00 | Expense |'' \<noteq> []
   \<and> row_cells ''| 2024-11-01 | RENTA DEPTO CHAPULTEPEC | 12,345.00 | Expense |''
      = [''2024-11-01'', ''RENTA DEPTO CHAPULTEPEC'', ''12,345.00'', ''Expense'']
   \<and> extract_table_from_response (''| Date | Concept | Amount (MXN) | Type |'' @ [newline]
       @ ''| 2024-11-01 | RENTA DEPTO CHAPULTEPEC | 12,345.00 | Expense |'')
     = Inr [\<lparr>Date = ''2024-11-01'', Concept = ''RENTA DEPTO CHAPULTEPEC'',
             Amount = Finite 12345, Type = ''Expense''\<rparr>]
   \<and> (\<exists>x df1 df2.
        parse_amount ''12,345.00'' = Some x
        \<and> build_frame (scan_lines False [''| Date | Concept | Amount (MXN) | Type |'']) = Inr df1
        \<and> build_frame (scan_lines True []) = Inr df2
        \<and> [\<lparr>Date = ''2024-11-01'', Concept = ''RENTA DEPTO CHAPULTEPEC'',
              Amount = Finite 12345, Type = ''Expense''\<rparr>]
           = df1 @ \<lparr>Date = ''2024-11-01'', Concept = ''RENTA DEPTO CHAPULTEPEC'',
                     Amount = x, Type = ''Expense''\<rparr> # df2)"
proof -
  have h1: "split newline (''| Date | Concept | Amount (MXN) | Type |'' @ [newline]
       @ ''| 2024-11-01 | RENTA DEPTO CHAPULTEPEC | 12,345.00 | Expense |'')
     = [''| Date | Concept | Amount (MXN) | Type |'']
       @ ''| 2024-11-01 | RENTA DEPTO CHAPULTEPEC | 12,345.00 | Expense |'' # []"
    by simp
  have h2: "header_seen [''| Date | Concept | Amount (MXN) | Type |'']"
    by (simp add: text_defs)
  have h3: "pipe \<in> set ''| 2024-11-01 | RENTA DEPTO CHAPULTEPEC | 12,345.00 | Expense |''"
    by simp
  have h4: "\<not> contains ''Date'' ''| 2024-11-01 | RENTA DEPTO CHAPULTEPEC | 12,345.00 | Expense |''"
    by simp
  have h5: "strip_chars ''|- '' ''| 2024-11-01 | RENTA DEPTO CHAPULTEPEC | 12,345.00 | Expense |'' \<noteq> []"
    by (simp add: text_defs)
  have h6: "row_cells ''| 2024-11-01 | RENTA DEPTO CHAPULTEPEC | 12,345.00 | Expense |''
      = [''2024-11-01'', ''RENTA DEPTO CHAPULTEPEC'', ''12,345.00'', ''Expense'']"
    by (simp add: text_defs)
  have h7: "extract_table_from_response (''| Date | Concept | Amount (MXN) | Type |'' @ [newline]
       @ ''| 2024-11-01 | RENTA DEPTO CHAPULTEPEC | 12,345.00 | Expense |'')
     = Inr [\<lparr>Date = ''2024-11-01'', Concept = ''RENTA DEPTO CHAPULTEPEC'',
             Amount = Finite 12345, Type = ''Expense''\<rparr>]"
    by (simp add: text_defs parser_defs float_defs)
  show ?thesis
    using four_cell_row_yields_one_record [OF h1 h2 h3 h4 h5 h6 h7] h1 h2 h3 h4 h5 h6 h7
    by presburger
qed

section \<open>The claims about the summary, the filter and the export\<close>

text \<open>
  Claim C7. On the empty record set the total income, the total expenses and the balance
  are all zero; the three computations are total functions and have no failing case.
\<close>
theorem empty_record_set_totals:
  "total_income [] = Finite 0 \<and> total_expenses [] = Finite 0 \<and> balance [] = Finite 0"
  by (simp add: total_income_def total_expenses_def balance_def series_sum_def fsub_def)

text \<open>
  Claim C2 fails on the code. With the type \<open>Expense\<close> selected and the date range
  2024-11-01 to 2024-11-30, the filtered set still holds the record dated 2024-12-15:
  the mask is built from the types alone and the range is never consulted.
\<close>
theorem date_range_not_applied:
  "df_filtered
     [\<lparr>Date = ''2024-11-01'', Concept = ''RENT'', Amount = Finite 100, Type = ''Expense''\<rparr>,
      \<lparr>Date = ''2024-12-15'', Concept = ''FEE'', Amount = Finite 50, Type = ''Expense''\<rparr>]
     [''Expense''] ((2024, 11, 1), (2024, 11, 30))
   = [\<lparr>Date = ''2024-11-01'', Concept = ''RENT'', Amount = Finite 100, Type = ''Expense''\<rparr>,
      \<lparr>Date = ''2024-12-15'', Concept = ''FEE'', Amount = Finite 50, Type = ''Expense''\<rparr>]"
  by (simp add: df_filtered_def)

text \<open>The filtered set is the same for any two date ranges.\<close>
lemma df_filtered_range_independent:
  "df_filtered df selected_types r1 = df_filtered df selected_types r2"
  by (simp add: df_filtered_def)

text \<open>When neither library call raises, the temporary file is gone after the export.\<close>
lemma export_success_deletes:
  "to_excel env df = Some excel_data \<Longrightarrow> \<not> read_raises env \<Longrightarrow>
     snd (create_excel_download_link env df fs) (tmp_name env) = None"
  by (simp add: create_excel_download_link_def)

text \<open>
  Claim C6 fails on the code. When \<open>df.to_excel\<close> raises, and when reading the file
  back raises, the export ends with an error and the temporary file is still in the
  file system.
\<close>
theorem temp_file_outlives_failed_export:
  "create_excel_download_link
     \<lparr>tmp_name = ''/tmp/tmpk3v9x2.xlsx'', to_excel = (\<lambda>df. None), read_raises = False,
      b64encode = (\<lambda>b. b)\<rparr>
     [\<lparr>Date = ''2024-11-01'', Concept = ''RENT'', Amount = Finite 100, Type = ''Expense''\<rparr>]
     Map.empty
   = (Inl WriteError, [''/tmp/tmpk3v9x2.xlsx'' \<mapsto> []])
   \<and> create_excel_download_link
     \<lparr>tmp_name = ''/tmp/tmpk3v9x2.xlsx'', to_excel = (\<lambda>df. Some ''PK''), read_raises = True,
      b64encode = (\<lambda>b. b)\<rparr>
     [\<lparr>Date = ''2024-11-01'', Concept = ''RENT'', Amount = Finite 100, Type = ''Expense''\<rparr>]
     Map.empty
   = (Inl ReadError, [''/tmp/tmpk3v9x2.xlsx'' \<mapsto> ''PK''])"
  by (simp add: create_excel_download_link_def)

end
